theory Spec2Isabelle
  imports Main
begin

section \<open>The IMDB LSTM notebook: sequence padding and data preparation\<close>

subsection \<open>Hyperparameters\<close>

text \<open>
  The parameter cell of the notebook:
  \<^verbatim>\<open>
  MAX_WORDS = 10000
  MAX_LEN = 500
  \<close>
  Python integers are unbounded, so both are \<open>int\<close>.
\<close>

definition MAX_WORDS :: int where
  "MAX_WORDS = 10000"

definition MAX_LEN :: int where
  "MAX_LEN = 500"

subsection \<open>Sequence padding\<close>

text \<open>
  \<^verbatim>\<open>
  def pad(input_list, padding_size, padding_value):
      return input_list + [padding_value] * abs((len(input_list) - padding_size))
  \<close>
  \<open>len(input_list) - padding_size\<close> is a subtraction of Python integers, which may be
  negative, so it is computed in \<open>int\<close> and \<open>abs\<close> is applied there; \<open>[v] * k\<close> for
  a non-negative \<open>k\<close> is \<open>k\<close> copies of \<open>v\<close>. The \<open>+\<close> of two lists builds a new
  list; its argument is left as it was.
\<close>

definition pad :: "'a list \<Rightarrow> int \<Rightarrow> 'a \<Rightarrow> 'a list" where
  "pad input_list padding_size padding_value =
     input_list @ replicate (nat \<bar>int (length input_list) - padding_size\<bar>) padding_value"

subsection \<open>Data preparation\<close>

text \<open>
  \<^verbatim>\<open>
  (x_train, y_train), (x_eval, y_eval) = tf.keras.datasets.imdb.load_data(maxlen=MAX_LEN, num_words=MAX_WORDS)
  data = {
          "train": {"x": np.array([pad(x, MAX_LEN, 0) for x in x_train]), "y": y_train},
          "eval":  {"x": np.array([pad(x, MAX_LEN, 0) for x in x_eval]),  "y": y_eval}
      }
  \<close>
  The dataset loader is an external library; what it returns is the argument of the
  model. The nested dictionary has four fixed keys and becomes a record. A review is a
  list of integer word ranks, a label is an integer.
\<close>

record dataset =
  train_x :: "int list list"
  train_y :: "int list"
  eval_x :: "int list list"
  eval_y :: "int list"

definition data :: "int list list \<Rightarrow> int list \<Rightarrow> int list list \<Rightarrow> int list \<Rightarrow> dataset" where
  "data x_train y_train x_eval y_eval =
     \<lparr> train_x = map (\<lambda>x. pad x MAX_LEN 0) x_train,
       train_y = y_train,
       eval_x = map (\<lambda>x. pad x MAX_LEN 0) x_eval,
       eval_y = y_eval \<rparr>"

section \<open>Label reshape in the pipeline\<close>

text \<open>
  \<^verbatim>\<open>
  batch_size = 64
  pipeline = fe.Pipeline(batch_size=batch_size, data=data, ops=Reshape([1], inputs="y", outputs="y"))
  \<close>
  A tensor is its shape together with its elements in row-major order. The labels are
  integers (0 or 1), one scalar tensor per review.
\<close>

record tensor =
  shape :: "nat list"
  elems :: "int list"

definition scalar :: "int \<Rightarrow> tensor" where
  "scalar y = \<lparr> shape = [], elems = [y] \<rparr>"

text \<open>
  Modelled from the spec: the \<open>Reshape\<close> operation and the \<open>Pipeline\<close> belong to the
  training framework and are not part of the notebook. The spec gives the pipeline the
  responsibility to "batch the padded dataset and reshape the label tensor from shape
  (N) to (N,1)". \<open>Reshape\<close> gives a tensor the requested shape and keeps its elements;
  it fails when the shape asks for another number of elements. The notebook requests
  the shape \<open>[1]\<close> for the key \<open>"y"\<close>: every label becomes a row of one column, and a
  batch stacks the rows of its \<open>N\<close> labels along a new first axis.
\<close>

definition Reshape :: "nat list \<Rightarrow> tensor \<Rightarrow> tensor option" where
  "Reshape shp t =
     (if prod_list shp = length (elems t) then Some \<lparr> shape = shp, elems = elems t \<rparr>
      else None)"

text \<open>
  Modelled from the spec: batching, which the \<open>Pipeline\<close> of the training framework
  does outside the notebook. The tensors of a batch have one shape and are stacked along
  a new first axis; there is no batch of no elements.
\<close>

fun batch :: "tensor list \<Rightarrow> tensor option" where
  "batch [] = None"
| "batch (t # ts) =
     (if \<forall>u \<in> set ts. shape u = shape t
      then Some \<lparr> shape = length (t # ts) # shape t, elems = concat (map elems (t # ts)) \<rparr>
      else None)"

text \<open>
  Modelled from the spec: the pipeline applies its operation to every element, and a
  failure of the operation on one element is a failure of the pipeline.
\<close>

fun sequence :: "'a option list \<Rightarrow> 'a list option" where
  "sequence [] = Some []"
| "sequence (None # _) = None"
| "sequence (Some x # xs) = (case sequence xs of None \<Rightarrow> None | Some ys \<Rightarrow> Some (x # ys))"

text \<open>
  Modelled from the spec: what the \<open>Pipeline\<close> of the notebook does with the key
  \<open>"y"\<close>, namely \<open>Reshape([1], inputs="y", outputs="y")\<close> on every label and then
  the batch.
\<close>

definition pipeline_y :: "int list \<Rightarrow> tensor option" where
  "pipeline_y ys =
     (case sequence (map (\<lambda>y. Reshape [1] (scalar y)) ys) of
        None \<Rightarrow> None
      | Some rows \<Rightarrow> batch rows)"

section \<open>Model topology\<close>

text \<open>
  \<^verbatim>\<open>
  def create_lstm():
      model = tf.keras.Sequential()
      model.add(layers.Embedding(MAX_WORDS, 64, input_length=MAX_LEN))
      model.add(layers.Conv1D(32, 3, padding='same', activation='relu'))
      model.add(layers.MaxPooling1D(pool_size=4))
      model.add(layers.LSTM(64))
      model.add(layers.Dense(250, activation='relu'))
      model.add(layers.Dense(1, activation="sigmoid"))
      return model
  \<close>
  A layer is the constructor call with its arguments. The arguments the notebook
  passes come first, in the order of the call; the keyword arguments it leaves out and
  that decide the shape of the output follow with the default of the library:
  \<^item> \<open>Embedding input_dim output_dim input_length\<close>;
  \<^item> \<open>Conv1D filters kernel_size padding activation strides\<close>, with \<open>strides=1\<close>;
  \<^item> \<open>MaxPooling1D pool_size strides padding\<close>, with \<open>strides=None\<close> (the pool
    size is the stride) and \<open>padding='valid'\<close>;
  \<^item> \<open>LSTM units return_sequences\<close>, with \<open>return_sequences=False\<close>;
  \<^item> \<open>Dense units activation\<close>.

  A sequential model is the list of its layers; \<open>add\<close> mutates the model by
  appending a layer, which the model threads through as the returned list.
\<close>

datatype activation = relu | sigmoid

datatype padding = same | valid

datatype layer =
    Embedding int int int
  | Conv1D int int padding activation int
  | MaxPooling1D int "int option" padding
  | LSTM int bool
  | Dense int activation

type_synonym model = "layer list"

definition Sequential :: model where
  "Sequential = []"

definition add :: "model \<Rightarrow> layer \<Rightarrow> model" where
  "add m l = m @ [l]"

definition create_lstm :: model where
  "create_lstm =
     (let model = Sequential;
          model = add model (Embedding MAX_WORDS 64 MAX_LEN);
          model = add model (Conv1D 32 3 same relu 1);
          model = add model (MaxPooling1D 4 None valid);
          model = add model (LSTM 64 False);
          model = add model (Dense 250 relu);
          model = add model (Dense 1 sigmoid)
      in model)"

subsection \<open>Output of the model for one sample\<close>

text \<open>
  Modelled from the spec: the layer classes belong to the numeric library and are not
  part of the notebook, which "only declares shapes and activation choices"; the spec
  has the stack "terminating in a single sigmoid-activated scalar". The shape of what a
  layer returns for one sample (the batch axis left out) follows the rule the library
  documents for the layer; a layer that cannot take its input fails.
  \<^item> An embedding takes a sequence of \<open>input_length\<close> word ranks and returns one
    vector of \<open>output_dim\<close> numbers for each.
  \<^item> A window of \<open>window\<close> steps moved by \<open>strides\<close> over \<open>steps\<close> steps gives
    \<open>ceil(steps / strides)\<close> positions with padding \<open>same\<close> and
    \<open>floor((steps - window) / strides) + 1\<close> positions with padding \<open>valid\<close>.
  \<^item> A 1-D convolution returns \<open>filters\<close> channels at every position of its window,
    max pooling keeps the channels.
  \<^item> An LSTM returns \<open>units\<close> numbers for every step when it returns sequences, and
    for the last step only otherwise.
  \<^item> A dense layer replaces the last axis by \<open>units\<close> numbers.
\<close>

definition conv_output_length :: "int \<Rightarrow> int \<Rightarrow> padding \<Rightarrow> int \<Rightarrow> int option" where
  "conv_output_length steps window mode strides =
     (if strides \<le> 0 \<or> window \<le> 0 then None
      else case mode of
        same \<Rightarrow> Some ((steps + strides - 1) div strides)
      | valid \<Rightarrow> if steps < window then None else Some ((steps - window) div strides + 1))"

fun compute_output_shape :: "layer \<Rightarrow> int list \<Rightarrow> int list option" where
  "compute_output_shape (Embedding input_dim output_dim input_length) s =
     (case s of
        [n] \<Rightarrow> if n = input_length then Some [n, output_dim] else None
      | _ \<Rightarrow> None)"
| "compute_output_shape (Conv1D filters kernel_size mode act strides) s =
     (case s of
        [steps, channels] \<Rightarrow>
          (case conv_output_length steps kernel_size mode strides of
             None \<Rightarrow> None
           | Some n \<Rightarrow> Some [n, filters])
      | _ \<Rightarrow> None)"
| "compute_output_shape (MaxPooling1D pool_size strides mode) s =
     (case s of
        [steps, channels] \<Rightarrow>
          (case conv_output_length steps pool_size mode
                  (case strides of None \<Rightarrow> pool_size | Some k \<Rightarrow> k) of
             None \<Rightarrow> None
           | Some n \<Rightarrow> Some [n, channels])
      | _ \<Rightarrow> None)"
| "compute_output_shape (LSTM units return_sequences) s =
     (case s of
        [steps, channels] \<Rightarrow> Some (if return_sequences then [steps, units] else [units])
      | _ \<Rightarrow> None)"
| "compute_output_shape (Dense units act) s =
     (if s = [] then None else Some (butlast s @ [units]))"

text \<open>
  Modelled from the spec: a sequential model hands the output of each layer to the next
  one, so the shape of its output is that of the last layer.
\<close>

fun model_output_shape :: "model \<Rightarrow> int list \<Rightarrow> int list option" where
  "model_output_shape [] s = Some s"
| "model_output_shape (l # ls) s =
     (case compute_output_shape l s of
        None \<Rightarrow> None
      | Some s' \<Rightarrow> model_output_shape ls s')"

text \<open>
  Modelled from the spec: the activation applied to what the model returns is the
  activation of its last layer, where that layer takes one as an argument.
\<close>

fun layer_activation :: "layer \<Rightarrow> activation option" where
  "layer_activation (Conv1D filters kernel_size mode act strides) = Some act"
| "layer_activation (Dense units act) = Some act"
| "layer_activation _ = None"

definition output_activation :: "model \<Rightarrow> activation option" where
  "output_activation m = (if m = [] then None else layer_activation (last m))"

section \<open>Checkpointing in the training loop\<close>

text \<open>
  \<^verbatim>\<open>
  save_dir = tempfile.mkdtemp()
  traces = [Accuracy(true_key="y", pred_key="y_pred", output_name='acc'),
           ModelSaver(model_name="lstm_imdb", save_dir=save_dir, save_best=True)]
  estimator = fe.Estimator(network=network, ..., epochs=epochs, traces=traces)
  estimator.fit()
  \<close>
  The state of the saver is the best evaluation loss seen so far (none before the first
  evaluation) and the content of the checkpoint file (none while the file does not
  exist). The loss is a floating-point number in the notebook; the model takes it from
  any linear order. The weights that would be written are a value of any type.
\<close>

record ('l, 'w) saver =
  best :: "'l option"
  checkpoint :: "'w option"

text \<open>
  Modelled from the spec: the state of \<open>ModelSaver\<close> when training begins. No
  evaluation loss has been seen, and \<open>tempfile.mkdtemp()\<close> of the notebook has made
  a new, empty directory, so there is no checkpoint file.
\<close>

definition on_begin :: "('l, 'w) saver" where
  "on_begin = \<lparr> best = None, checkpoint = None \<rparr>"

text \<open>
  Modelled from the spec: \<open>ModelSaver\<close> and the epoch loop of \<open>Estimator.fit\<close>
  belong to the training framework and are not part of the notebook. The spec has the
  checkpoint "written to a temporary location whenever evaluation loss is the best seen
  so far" and the training loop "persist a checkpoint whenever evaluation loss
  improves". An epoch ends with its evaluation loss and the weights of the model at
  that moment; the loss improves when there is no earlier loss or it is strictly below
  the best earlier loss.
\<close>

definition improves :: "'l::linorder \<Rightarrow> 'l option \<Rightarrow> bool" where
  "improves l b = (case b of None \<Rightarrow> True | Some b' \<Rightarrow> l < b')"

text \<open>
  Modelled from the spec: the end of an epoch in \<open>ModelSaver\<close>, which writes the
  checkpoint and records the loss when the loss improves, and does nothing otherwise.
\<close>

definition on_epoch_end :: "('l::linorder, 'w) saver \<Rightarrow> 'l \<times> 'w \<Rightarrow> ('l, 'w) saver" where
  "on_epoch_end s e =
     (if improves (fst e) (best s) then \<lparr> best = Some (fst e), checkpoint = Some (snd e) \<rparr>
      else s)"

text \<open>
  Modelled from the spec: the epoch loop of \<open>Estimator.fit\<close>, as far as the saver
  sees it. The epochs run in order, each ending with its evaluation loss and weights.
\<close>

definition fit :: "('l::linorder \<times> 'w) list \<Rightarrow> ('l, 'w) saver" where
  "fit epochs = foldl on_epoch_end on_begin epochs"

section \<open>Properties of padding\<close>

lemma length_pad:
  "int (length (pad xs n v)) = int (length xs) + \<bar>int (length xs) - n\<bar>"
  by (simp add: pad_def)

lemma pad_short_eq:
  "int (length xs) \<le> n \<Longrightarrow> pad xs n v = xs @ replicate (nat n - length xs) v"
  by (simp add: pad_def nat_diff_distrib' abs_if)

text \<open>
  Claim C1. An input list strictly shorter than the target padding length is padded
  to a list of exactly the target length.
\<close>

theorem pad_shorter_exact_length:
  "int (length xs) < n \<Longrightarrow> int (length (pad xs n v)) = n"
  by (simp add: length_pad)

theorem pad_shorter_exact_length_witness:
  "int (length [1, 2, 3::int]) < 5 \<and> int (length (pad [1, 2, 3::int] 5 0)) = 5"
  using pad_shorter_exact_length [of "[1, 2, 3::int]" 5 0] by simp

text \<open>
  Claim C2. An input list strictly longer than the target padding length gets
  \<open>length - padding_size\<close> copies of the fill value appended, so the output has length
  \<open>2 * length - padding_size\<close>, which is strictly greater than both the input length
  and the target length.
\<close>

theorem pad_longer_overshoots:
  "n < int (length xs) \<Longrightarrow>
     pad xs n v = xs @ replicate (nat (int (length xs) - n)) v
     \<and> int (length (pad xs n v)) = 2 * int (length xs) - n
     \<and> int (length xs) < int (length (pad xs n v))
     \<and> n < int (length (pad xs n v))"
  by (simp add: pad_def)

theorem pad_longer_overshoots_witness:
  "2 < int (length [7, 8, 9, 10, 11::int])
     \<and> pad [7, 8, 9, 10, 11::int] 2 0 = [7, 8, 9, 10, 11, 0, 0, 0]
     \<and> int (length (pad [7, 8, 9, 10, 11::int] 2 0)) = 8"
  using pad_longer_overshoots [of 2 "[7, 8, 9, 10, 11::int]" 0]
  by (simp add: numeral_eq_Suc)

text \<open>
  Claim C3. For every input list, target length and fill value, the output of
  \<open>pad\<close> is the input list followed by zero or more copies of the fill value, and the
  length of the output is at least the target length.
\<close>

theorem pad_appends_fill_reaches_target:
  "(\<exists>k. pad xs n v = xs @ replicate k v) \<and> n \<le> int (length (pad xs n v))"
proof
  show "\<exists>k. pad xs n v = xs @ replicate k v"
    unfolding pad_def by blast
  show "n \<le> int (length (pad xs n v))"
    unfolding length_pad by linarith
qed

text \<open>
  Claim C9. Padding is idempotent on inputs that do not exceed the target length:
  padding the padded list again to the same length with the same fill value changes
  nothing.
\<close>

theorem pad_idempotent:
  "int (length xs) \<le> n \<Longrightarrow> pad (pad xs n v) n v = pad xs n v"
proof -
  assume le: "int (length xs) \<le> n"
  then have "int (length (pad xs n v)) = n"
    by (simp add: length_pad)
  then have "nat \<bar>int (length (pad xs n v)) - n\<bar> = 0"
    by simp
  then show ?thesis
    by (simp add: pad_def [of "pad xs n v"])
qed

theorem pad_idempotent_witness:
  "int (length [4, 5::int]) \<le> 4
     \<and> pad (pad [4, 5::int] 4 0) 4 0 = pad [4, 5] 4 0
     \<and> pad [4, 5::int] 4 0 = [4, 5, 0, 0]"
  using pad_idempotent [of "[4, 5::int]" 4 0]
  by (simp add: pad_def numeral_eq_Suc)

text \<open>
  Claim C10. \<open>pad\<close> never truncates or alters its input: the first
  \<open>len(input_list)\<close> elements of the output are the input list, element for element,
  also when the input is longer than the target length.
\<close>

theorem pad_keeps_input_prefix:
  "take (length xs) (pad xs n v) = xs
     \<and> length xs \<le> length (pad xs n v)
     \<and> (\<forall>i < length xs. pad xs n v ! i = xs ! i)"
  by (simp add: pad_def nth_append)

theorem pad_keeps_input_prefix_witness:
  "take (length [7, 8, 9::int]) (pad [7, 8, 9::int] 1 0) = [7, 8, 9]
     \<and> pad [7, 8, 9::int] 1 0 ! 2 = [7, 8, 9] ! 2"
  using pad_keeps_input_prefix [of "[7, 8, 9::int]" 1 0]
  by simp

section \<open>Properties of the data preparation\<close>

text \<open>
  Claim C7. When every review returned by the dataset loader has length at most
  \<open>MAX_LEN = 500\<close>, every padded train and eval review produced by the data
  preparation has length exactly \<open>MAX_LEN\<close>, and is the review with the fill value 0
  appended at the end.
\<close>

theorem data_padded_to_MAX_LEN:
  assumes "\<forall>x \<in> set x_train \<union> set x_eval. int (length x) \<le> MAX_LEN"
  shows "MAX_LEN = 500
     \<and> length (train_x (data x_train y_train x_eval y_eval)) = length x_train
     \<and> length (eval_x (data x_train y_train x_eval y_eval)) = length x_eval
     \<and> (\<forall>i < length x_train.
           length (train_x (data x_train y_train x_eval y_eval) ! i) = 500
         \<and> train_x (data x_train y_train x_eval y_eval) ! i
             = x_train ! i @ replicate (500 - length (x_train ! i)) 0)
     \<and> (\<forall>i < length x_eval.
           length (eval_x (data x_train y_train x_eval y_eval) ! i) = 500
         \<and> eval_x (data x_train y_train x_eval y_eval) ! i
             = x_eval ! i @ replicate (500 - length (x_eval ! i)) 0)"
proof -
  have one: "length (pad x MAX_LEN 0) = 500
      \<and> pad x MAX_LEN (0::int) = x @ replicate (500 - length x) 0"
    if "int (length x) \<le> MAX_LEN" for x :: "int list"
    using that pad_short_eq [of x MAX_LEN 0] by (simp add: MAX_LEN_def)
  have tr: "int (length (x_train ! i)) \<le> MAX_LEN" if "i < length x_train" for i
    using assms that by (simp add: nth_mem)
  have ev: "int (length (x_eval ! i)) \<le> MAX_LEN" if "i < length x_eval" for i
    using assms that by (simp add: nth_mem)
  have "MAX_LEN = 500"
    by (simp add: MAX_LEN_def)
  moreover have "length (train_x (data x_train y_train x_eval y_eval)) = length x_train"
    and "length (eval_x (data x_train y_train x_eval y_eval)) = length x_eval"
    by (simp_all add: data_def)
  moreover have "length (train_x (data x_train y_train x_eval y_eval) ! i) = 500
      \<and> train_x (data x_train y_train x_eval y_eval) ! i
          = x_train ! i @ replicate (500 - length (x_train ! i)) 0"
    if "i < length x_train" for i
  proof -
    have padded: "train_x (data x_train y_train x_eval y_eval) ! i = pad (x_train ! i) MAX_LEN 0"
      using that by (simp add: data_def)
    show ?thesis
      unfolding padded by (rule one [OF tr [OF that]])
  qed
  moreover have "length (eval_x (data x_train y_train x_eval y_eval) ! i) = 500
      \<and> eval_x (data x_train y_train x_eval y_eval) ! i
          = x_eval ! i @ replicate (500 - length (x_eval ! i)) 0"
    if "i < length x_eval" for i
  proof -
    have padded: "eval_x (data x_train y_train x_eval y_eval) ! i = pad (x_eval ! i) MAX_LEN 0"
      using that by (simp add: data_def)
    show ?thesis
      unfolding padded by (rule one [OF ev [OF that]])
  qed
  ultimately show ?thesis
    by blast
qed

theorem data_padded_to_MAX_LEN_witness:
  "int (length [1, 2, 3::int]) \<le> MAX_LEN \<and> int (length [4::int]) \<le> MAX_LEN
     \<and> int (length [5, 6::int]) \<le> MAX_LEN
     \<and> length (train_x (data [[1, 2, 3], [4]] [1, 0] [[5, 6]] [1]) ! 1) = 500
     \<and> train_x (data [[1, 2, 3], [4]] [1, 0] [[5, 6]] [1]) ! 1 = [4] @ replicate 499 0
     \<and> eval_x (data [[1, 2, 3], [4]] [1, 0] [[5, 6]] [1]) ! 0 = [5, 6] @ replicate 498 0"
proof -
  have h: "\<forall>x \<in> set [[1, 2, 3], [4]] \<union> set [[5, 6::int]]. int (length x) \<le> MAX_LEN"
    by (simp add: MAX_LEN_def)
  show ?thesis
    using h data_padded_to_MAX_LEN [OF h, of "[1, 0]" "[1]"] by simp
qed

section \<open>Properties of the label reshape\<close>

lemma sequence_map_Some: "sequence (map (\<lambda>x. Some (f x)) xs) = Some (map f xs)"
  by (induction xs) simp_all

lemma Reshape_scalar: "Reshape [1] (scalar y) = Some \<lparr> shape = [1], elems = [y] \<rparr>"
  by (simp add: Reshape_def scalar_def)

lemma concat_singletons: "concat (map (\<lambda>y. [y]) ys) = ys"
  by (induction ys) simp_all

text \<open>
  Claim C5. For a batch of \<open>N\<close> scalar labels the label reshape of the pipeline
  produces a tensor of \<open>N\<close> rows and exactly one column: it maps the shape \<open>(N)\<close> to
  the shape \<open>(N, 1)\<close>, and keeps the labels.
\<close>

theorem pipeline_reshapes_labels:
  "ys \<noteq> [] \<Longrightarrow> pipeline_y ys = Some \<lparr> shape = [length ys, 1], elems = ys \<rparr>"
proof -
  assume ne: "ys \<noteq> []"
  have rows: "sequence (map (\<lambda>y. Reshape [1] (scalar y)) ys)
      = Some (map (\<lambda>y. \<lparr> shape = [1], elems = [y] \<rparr>) ys)"
    unfolding Reshape_scalar by (rule sequence_map_Some)
  from ne obtain z zs where ys: "ys = z # zs"
    by (cases ys) auto
  have "batch (map (\<lambda>y. \<lparr> shape = [1], elems = [y] \<rparr>) (z # zs))
      = Some \<lparr> shape = [length (z # zs), 1], elems = z # zs \<rparr>"
    using concat_singletons [of zs] by (simp add: comp_def)
  then have "batch (map (\<lambda>y. \<lparr> shape = [1], elems = [y] \<rparr>) ys)
      = Some \<lparr> shape = [length ys, 1], elems = ys \<rparr>"
    by (simp only: ys)
  then show ?thesis
    unfolding pipeline_y_def rows by simp
qed

theorem pipeline_reshapes_labels_witness:
  "[1, 0, 1::int] \<noteq> [] \<and> pipeline_y [1, 0, 1] = Some \<lparr> shape = [3, 1], elems = [1, 0, 1] \<rparr>"
  using pipeline_reshapes_labels [of "[1, 0, 1]"] by simp

section \<open>Properties of the model topology\<close>

text \<open>
  Claim C8. The model built by \<open>create_lstm\<close> is exactly the fixed sequential
  stack: an embedding lookup, a 1-D convolution, max pooling, a recurrent (LSTM) layer
  and two dense layers, the last of which produces a single sigmoid-activated scalar
  output for each sample, a padded review of \<open>MAX_LEN\<close> word ranks.
\<close>

theorem create_lstm_stack:
  "create_lstm =
     [Embedding 10000 64 500, Conv1D 32 3 same relu 1, MaxPooling1D 4 None valid,
      LSTM 64 False, Dense 250 relu, Dense 1 sigmoid]
   \<and> length create_lstm = 6
   \<and> last create_lstm = Dense 1 sigmoid
   \<and> model_output_shape (take 1 create_lstm) [MAX_LEN] = Some [500, 64]
   \<and> model_output_shape (take 2 create_lstm) [MAX_LEN] = Some [500, 32]
   \<and> model_output_shape (take 3 create_lstm) [MAX_LEN] = Some [125, 32]
   \<and> model_output_shape (take 4 create_lstm) [MAX_LEN] = Some [64]
   \<and> model_output_shape (take 5 create_lstm) [MAX_LEN] = Some [250]
   \<and> model_output_shape create_lstm [MAX_LEN] = Some [1]
   \<and> output_activation create_lstm = Some sigmoid"
proof -
  have stack: "create_lstm =
     [Embedding 10000 64 500, Conv1D 32 3 same relu 1, MaxPooling1D 4 None valid,
      LSTM 64 False, Dense 250 relu, Dense 1 sigmoid]"
    by (simp add: create_lstm_def Sequential_def add_def MAX_WORDS_def MAX_LEN_def)
  have "length create_lstm = 6" and "last create_lstm = Dense 1 sigmoid"
    unfolding stack by simp_all
  moreover have "model_output_shape (take 1 create_lstm) [MAX_LEN] = Some [500, 64]"
    unfolding stack MAX_LEN_def by simp
  moreover have "model_output_shape (take 2 create_lstm) [MAX_LEN] = Some [500, 32]"
    unfolding stack MAX_LEN_def by (simp add: conv_output_length_def)
  moreover have "model_output_shape (take 3 create_lstm) [MAX_LEN] = Some [125, 32]"
    unfolding stack MAX_LEN_def by (simp add: conv_output_length_def)
  moreover have "model_output_shape (take 4 create_lstm) [MAX_LEN] = Some [64]"
    unfolding stack MAX_LEN_def by (simp add: conv_output_length_def)
  moreover have "model_output_shape (take 5 create_lstm) [MAX_LEN] = Some [250]"
    unfolding stack MAX_LEN_def by (simp add: conv_output_length_def)
  moreover have "model_output_shape create_lstm [MAX_LEN] = Some [1]"
    unfolding stack MAX_LEN_def by (simp add: conv_output_length_def)
  moreover have "output_activation create_lstm = Some sigmoid"
    unfolding stack by (simp add: output_activation_def)
  ultimately show ?thesis
    using stack by blast
qed

section \<open>Properties of checkpointing\<close>

lemma fit_snoc: "fit (es @ [e]) = on_epoch_end (fit es) e"
  by (simp add: fit_def)

lemma fit_state:
  "(es = [] \<and> fit es = on_begin)
   \<or> (\<exists>pre l w post. es = pre @ (l, w) # post
         \<and> (\<forall>k \<in> set pre. l < fst k) \<and> (\<forall>k \<in> set post. l \<le> fst k)
         \<and> fit es = \<lparr> best = Some l, checkpoint = Some w \<rparr>)"
proof (induction es rule: rev_induct)
  case Nil
  show ?case by (simp add: fit_def)
next
  case (snoc e es)
  from snoc.IH show ?case
  proof
    assume "es = [] \<and> fit es = on_begin"
    then have nil: "es = []" and st: "fit es = on_begin"
      by blast+
    have "fit (es @ [e]) = on_epoch_end on_begin e"
      unfolding fit_snoc st ..
    then have "fit (es @ [e]) = \<lparr> best = Some (fst e), checkpoint = Some (snd e) \<rparr>"
      by (simp add: on_epoch_end_def improves_def on_begin_def)
    with nil have "es @ [e] = [] @ (fst e, snd e) # []
        \<and> (\<forall>k \<in> set []. fst e < fst k) \<and> (\<forall>k \<in> set []. fst e \<le> fst k)
        \<and> fit (es @ [e]) = \<lparr> best = Some (fst e), checkpoint = Some (snd e) \<rparr>"
      by simp
    then show ?thesis by blast
  next
    assume "\<exists>pre l w post. es = pre @ (l, w) # post
         \<and> (\<forall>k \<in> set pre. l < fst k) \<and> (\<forall>k \<in> set post. l \<le> fst k)
         \<and> fit es = \<lparr> best = Some l, checkpoint = Some w \<rparr>"
    then obtain pre l w post where es: "es = pre @ (l, w) # post"
      and before: "\<forall>k \<in> set pre. l < fst k" and after: "\<forall>k \<in> set post. l \<le> fst k"
      and st: "fit es = \<lparr> best = Some l, checkpoint = Some w \<rparr>"
      by blast
    show ?thesis
    proof (cases "fst e < l")
      case True
      have "\<forall>k \<in> set es. fst e < fst k"
        using True before after by (auto simp: es)
      moreover have "fit (es @ [e]) = \<lparr> best = Some (fst e), checkpoint = Some (snd e) \<rparr>"
        using True st by (simp add: fit_snoc on_epoch_end_def improves_def)
      ultimately have "es @ [e] = es @ (fst e, snd e) # []
          \<and> (\<forall>k \<in> set es. fst e < fst k) \<and> (\<forall>k \<in> set []. fst e \<le> fst k)
          \<and> fit (es @ [e]) = \<lparr> best = Some (fst e), checkpoint = Some (snd e) \<rparr>"
        by simp
      then show ?thesis by blast
    next
      case False
      then have "fit (es @ [e]) = \<lparr> best = Some l, checkpoint = Some w \<rparr>"
        using st by (simp add: fit_snoc on_epoch_end_def improves_def)
      moreover have "\<forall>k \<in> set (post @ [e]). l \<le> fst k"
        using False after by auto
      ultimately have "es @ [e] = pre @ (l, w) # (post @ [e])
          \<and> (\<forall>k \<in> set pre. l < fst k) \<and> (\<forall>k \<in> set (post @ [e]). l \<le> fst k)
          \<and> fit (es @ [e]) = \<lparr> best = Some l, checkpoint = Some w \<rparr>"
        using before by (simp add: es)
      then show ?thesis by blast
    qed
  qed
qed

lemma best_fit_lower_bound:
  assumes "k \<in> set es"
  shows "\<exists>b. best (fit es) = Some b \<and> b \<le> fst k"
proof -
  from assms have "es \<noteq> []" by auto
  with fit_state [of es] obtain pre l w post where es: "es = pre @ (l, w) # post"
    and before: "\<forall>k \<in> set pre. l < fst k" and after: "\<forall>k \<in> set post. l \<le> fst k"
    and st: "fit es = \<lparr> best = Some l, checkpoint = Some w \<rparr>"
    by blast
  from assms before after have "l \<le> fst k"
    by (auto simp: es)
  with st show ?thesis by simp
qed

lemma improves_best_fit:
  "improves l (best (fit es)) = (\<forall>k \<in> set es. l < fst k)"
proof (cases "es = []")
  case True
  then show ?thesis by (simp add: fit_def on_begin_def improves_def)
next
  case False
  with fit_state [of es] obtain pre b w post where es: "es = pre @ (b, w) # post"
    and before: "\<forall>k \<in> set pre. b < fst k" and after: "\<forall>k \<in> set post. b \<le> fst k"
    and st: "fit es = \<lparr> best = Some b, checkpoint = Some w \<rparr>"
    by blast
  have "(l < b) = (\<forall>k \<in> set es. l < fst k)"
    using before after by (auto simp: es)
  with st show ?thesis by (simp add: improves_def)
qed

text \<open>
  Claim C4. In every run of the training loop the checkpoint file exists only after
  some epoch's evaluation loss improved on the previous best evaluation loss, and an
  epoch whose evaluation loss is worse than the best seen so far does not overwrite the
  stored checkpoint. Here: when a checkpoint exists after the epochs \<open>es\<close>, it holds
  the weights of an epoch whose loss was strictly below the loss of every earlier epoch
  and that no later epoch improved on; and an epoch whose loss is worse than the loss of
  some earlier epoch, or than the recorded best, leaves checkpoint and saver as they
  were.
\<close>

theorem checkpoint_only_on_improvement:
  "(checkpoint (fit es) \<noteq> None \<longrightarrow>
      (\<exists>pre l w post. es = pre @ (l, w) # post
          \<and> (\<forall>k \<in> set pre. l < fst k) \<and> improves l (best (fit pre))
          \<and> (\<forall>k \<in> set post. l \<le> fst k)
          \<and> best (fit es) = Some l \<and> checkpoint (fit es) = Some w))
   \<and> (k \<in> set pre' \<and> fst k < l' \<longrightarrow> fit (pre' @ [(l', w')]) = fit pre')
   \<and> (best (fit pre') = Some b \<and> b < l' \<longrightarrow> fit (pre' @ [(l', w')]) = fit pre')"
proof (intro conjI impI)
  assume "checkpoint (fit es) \<noteq> None"
  then have "fit es \<noteq> on_begin"
    by (auto simp: on_begin_def)
  with fit_state [of es] obtain pre l w post where es: "es = pre @ (l, w) # post"
    and before: "\<forall>k \<in> set pre. l < fst k" and after: "\<forall>k \<in> set post. l \<le> fst k"
    and st: "fit es = \<lparr> best = Some l, checkpoint = Some w \<rparr>"
    by blast
  from before have "improves l (best (fit pre))"
    by (simp add: improves_best_fit)
  with es before after st
  have "es = pre @ (l, w) # post
      \<and> (\<forall>k \<in> set pre. l < fst k) \<and> improves l (best (fit pre))
      \<and> (\<forall>k \<in> set post. l \<le> fst k)
      \<and> best (fit es) = Some l \<and> checkpoint (fit es) = Some w"
    by simp
  then show "\<exists>pre l w post. es = pre @ (l, w) # post
      \<and> (\<forall>k \<in> set pre. l < fst k) \<and> improves l (best (fit pre))
      \<and> (\<forall>k \<in> set post. l \<le> fst k)
      \<and> best (fit es) = Some l \<and> checkpoint (fit es) = Some w"
    by blast
next
  assume "k \<in> set pre' \<and> fst k < l'"
  then have "\<not> improves l' (best (fit pre'))"
    unfolding improves_best_fit by force
  then show "fit (pre' @ [(l', w')]) = fit pre'"
    by (simp add: fit_snoc on_epoch_end_def)
next
  assume "best (fit pre') = Some b \<and> b < l'"
  then show "fit (pre' @ [(l', w')]) = fit pre'"
    by (auto simp: fit_snoc on_epoch_end_def improves_def)
qed

theorem checkpoint_only_on_improvement_witness:
  "checkpoint (fit [(5::int, ''a''), (3, ''b''), (4, ''c'')]) = Some ''b''
   \<and> (\<exists>pre l w post. [(5::int, ''a''), (3, ''b''), (4, ''c'')] = pre @ (l, w) # post
         \<and> (\<forall>k \<in> set pre. l < fst k) \<and> improves l (best (fit pre))
         \<and> (\<forall>k \<in> set post. l \<le> fst k)
         \<and> best (fit [(5::int, ''a''), (3, ''b''), (4, ''c'')]) = Some l
         \<and> checkpoint (fit [(5::int, ''a''), (3, ''b''), (4, ''c'')]) = Some w)
   \<and> (3::int, ''b'') \<in> set [(5::int, ''a''), (3, ''b'')] \<and> fst (3::int, ''b'') < (4::int)
   \<and> best (fit [(5::int, ''a''), (3, ''b'')]) = Some 3
   \<and> fit ([(5::int, ''a''), (3, ''b'')] @ [(4, ''c'')]) = fit [(5, ''a''), (3, ''b'')]"
proof -
  note run = checkpoint_only_on_improvement
    [of "[(5::int, ''a''), (3, ''b''), (4, ''c'')]" "(3::int, ''b'')"
        "[(5::int, ''a''), (3, ''b'')]" 4 "''c''" 3]
  have c: "checkpoint (fit [(5::int, ''a''), (3, ''b''), (4, ''c'')]) = Some ''b''"
    by (simp add: fit_def on_begin_def on_epoch_end_def improves_def)
  then have ne: "checkpoint (fit [(5::int, ''a''), (3, ''b''), (4, ''c'')]) \<noteq> None"
    by simp
  have m: "(3::int, ''b'') \<in> set [(5::int, ''a''), (3, ''b'')]"
    by simp
  have lt: "fst (3::int, ''b'') < (4::int)"
    by simp
  have b: "best (fit [(5::int, ''a''), (3, ''b'')]) = Some 3"
    by (simp add: fit_def on_begin_def on_epoch_end_def improves_def)
  from run ne m lt c b show ?thesis
    by blast
qed

end
